theory Spec2Isabelle
  imports Main
begin

section \<open>JavaScript numbers, values and strings\<close>

text \<open>
  The countdown element computes with JavaScript numbers that count milliseconds.
  A number is modelled as a mathematical integer or \<open>NaN\<close>; this is exact for the
  integers below \<open>2^53\<close> in absolute value, which covers every millisecond timestamp a
  \<open>Date\<close> can hold.  Fractions and the infinities are outside the model, and so is
  the rounding of the code's floating-point arithmetic on larger integers: the theorems
  about the formatter are stated for durations below \<open>2^53\<close>.
\<close>

datatype jsnum = Num int | NaN

text \<open>\<open>a - b\<close> and \<open>a * b\<close> on numbers: \<open>NaN\<close> is absorbing.\<close>

fun jsSub :: "jsnum \<Rightarrow> jsnum \<Rightarrow> jsnum" where
  "jsSub (Num a) (Num b) = Num (a - b)"
| "jsSub _ _ = NaN"

fun jsMul :: "jsnum \<Rightarrow> jsnum \<Rightarrow> jsnum" where
  "jsMul (Num a) (Num b) = Num (a * b)"
| "jsMul _ _ = NaN"

text \<open>
  \<open>Math.floor(a / c)\<close> for a constant divisor \<open>c\<close> that is not zero (every divisor of
  the source is a positive literal): the floor of the quotient is \<open>div\<close> on \<open>int\<close>,
  which rounds towards minus infinity.
\<close>

fun floorDiv :: "jsnum \<Rightarrow> int \<Rightarrow> jsnum" where
  "floorDiv (Num a) c = Num (a div c)"
| "floorDiv NaN c = NaN"

text \<open>The comparisons \<open>x > 0\<close> and \<open>x <= 0\<close>: both are false on \<open>NaN\<close>.\<close>

fun jsGtZero :: "jsnum \<Rightarrow> bool" where
  "jsGtZero (Num a) = (0 < a)"
| "jsGtZero NaN = False"

fun jsLeZero :: "jsnum \<Rightarrow> bool" where
  "jsLeZero (Num a) = (a \<le> 0)"
| "jsLeZero NaN = False"

text \<open>Decimal digits of a natural number, most significant first.\<close>

fun showNat :: "nat \<Rightarrow> string" where
  "showNat n =
     (if n < 10 then [''0123456789'' ! n]
      else showNat (n div 10) @ [''0123456789'' ! (n mod 10)])"

declare showNat.simps [simp del]

text \<open>
  The string a template literal \<open>${x}\<close> inserts for a number \<open>x\<close>: the decimal
  digits, which is what the code prints for an integer below \<open>10^21\<close> in absolute
  value (a larger one is printed with an exponent).
\<close>

fun toString :: "jsnum \<Rightarrow> string" where
  "toString (Num a) = (if a < 0 then ''-'' @ showNat (nat (- a)) else showNat (nat a))"
| "toString NaN = ''NaN''"

text \<open>
  \<open>s.substring(0, e)\<close>: an end index below zero counts as zero and one beyond the
  string as its length.
\<close>

definition substring0 :: "string \<Rightarrow> int \<Rightarrow> string" where
  "substring0 s e = take (nat e) s"

section \<open>The duration formatter: \<open>timeMsDiffToString\<close>\<close>

text \<open>
  The arrow function \<open>formatTime\<close> of \<open>timeMsDiffToString\<close>:
  \<^verbatim>\<open>(time, desc, showZero = false) =>
      time > 0 || showZero ? `${time} ${desc}${time !== 1 ? 's' : ''}, ` : ''\<close>
\<close>

definition formatTime :: "jsnum \<Rightarrow> string \<Rightarrow> bool \<Rightarrow> string" where
  "formatTime time desc showZero =
     (if jsGtZero time \<or> showZero
      then toString time @ '' '' @ desc @ (if time \<noteq> Num 1 then ''s'' else '''') @ '', ''
      else '''')"

text \<open>
  The six \<open>const\<close>s that \<open>timeMsDiffToString\<close> computes from \<open>ms\<close>, in the order
  years, months, days, hours, minutes, seconds; \<open>elapsed\<close> is reduced by the amount each
  unit consumed before the next unit is computed.
\<close>

definition timeBreakdown :: "jsnum \<Rightarrow> jsnum \<times> jsnum \<times> jsnum \<times> jsnum \<times> jsnum \<times> jsnum" where
  "timeBreakdown ms =
     (let elapsed = ms;
          years = floorDiv elapsed (1000 * 60 * 60 * 24 * 365);
          elapsed = jsSub elapsed (jsMul years (Num (1000 * 60 * 60 * 24 * 365)));
          months = floorDiv elapsed (1000 * 60 * 60 * 24 * 28);
          elapsed = jsSub elapsed (jsMul months (Num (1000 * 60 * 60 * 24 * 28)));
          days = floorDiv elapsed (1000 * 60 * 60 * 24);
          elapsed = jsSub elapsed (jsMul days (Num (1000 * 60 * 60 * 24)));
          hours = floorDiv elapsed (1000 * 60 * 60);
          elapsed = jsSub elapsed (jsMul hours (Num (1000 * 60 * 60)));
          minutes = floorDiv elapsed (1000 * 60);
          elapsed = jsSub elapsed (jsMul minutes (Num (1000 * 60)));
          seconds = floorDiv elapsed 1000
      in (years, months, days, hours, minutes, seconds))"

definition timeMsDiffToString :: "jsnum \<Rightarrow> string" where
  "timeMsDiffToString ms =
     (case timeBreakdown ms of (years, months, days, hours, minutes, seconds) \<Rightarrow>
        let time =
              formatTime years ''year'' False @
              formatTime months ''month'' False @
              formatTime days ''day'' False @
              formatTime hours ''hour'' False @
              formatTime minutes ''minute'' False @
              formatTime seconds ''second'' True
        in substring0 time (int (length time) - 2))"

section \<open>The host: clock, date parsing, timers and the document\<close>

text \<open>
  A value that can be assigned to the property \<open>targetTimestamp\<close> or held in the field
  \<open>_targetTimestamp\<close>.  An attribute change passes a string or \<open>null\<close>; a script can
  assign any of these.
\<close>

datatype jsval = JUndefined | JNull | JBool bool | JNumber jsnum | JString string

text \<open>\<open>!v\<close> is the negation of \<open>truthy v\<close>.\<close>

fun truthy :: "jsval \<Rightarrow> bool" where
  "truthy JUndefined = False"
| "truthy JNull = False"
| "truthy (JBool b) = b"
| "truthy (JNumber (Num n)) = (n \<noteq> 0)"
| "truthy (JNumber NaN) = False"
| "truthy (JString s) = (s \<noteq> [])"

text \<open>
  What the browser computes and the repository does not define is a parameter of the
  model: \<open>dateParse s\<close> is \<open>+new Date(s)\<close>, the millisecond timestamp of a date string
  or \<open>NaN\<close> for an invalid date, and \<open>stringToNumber s\<close> is the number a string
  converts to in arithmetic.  The clock reading \<open>+new Date()\<close> is an argument
  \<open>now\<close> of every operation that reads the clock.
\<close>

record host =
  dateParse :: "string \<Rightarrow> jsnum"
  stringToNumber :: "string \<Rightarrow> jsnum"

text \<open>The number an operand of \<open>-\<close> converts to.\<close>

fun toNumber :: "host \<Rightarrow> jsval \<Rightarrow> jsnum" where
  "toNumber h JUndefined = NaN"
| "toNumber h JNull = Num 0"
| "toNumber h (JBool b) = Num (if b then 1 else 0)"
| "toNumber h (JNumber x) = x"
| "toNumber h (JString s) = stringToNumber h s"

text \<open>
  The state of one \<open>CountdownElement\<close> with the part of the browser it acts on.
  The first three fields are the fields of the class (\<open>None\<close> is \<open>null\<close>; a \<open>div\<close>
  element and a timer handle are named by a number).  The others record what the
  element did to the browser: \<open>timers\<close> holds the handle and the delay of every
  \<open>setTimeout\<close> call that has neither fired nor been cleared, \<open>cleared\<close> the argument of
  every \<open>clearTimeout\<close> call, \<open>children\<close> the \<open>div\<close>s appended to the element,
  and \<open>rendered\<close> every assignment to an \<open>innerText\<close>, oldest first.
\<close>

record countdown =
  countdownDescElement :: "nat option"
  tickTimer :: "nat option"
  targetTimestamp :: jsval
  timers :: "(nat \<times> int) list"
  nextHandle :: nat
  cleared :: "nat list"
  children :: "nat list"
  rendered :: "(nat \<times> string) list"

text \<open>
  \<open>setTimeout(() => this.nextTick(), delay)\<close>: every callback of the class is the same,
  so a pending timer is its handle and its delay.  Handles are fresh and positive.
\<close>

definition setTimeout :: "int \<Rightarrow> countdown \<Rightarrow> nat \<times> countdown" where
  "setTimeout delay s =
     (nextHandle s,
      s\<lparr>timers := timers s @ [(nextHandle s, delay)], nextHandle := Suc (nextHandle s)\<rparr>)"

definition clearTimeout :: "nat \<Rightarrow> countdown \<Rightarrow> countdown" where
  "clearTimeout t s =
     s\<lparr>timers := filter (\<lambda>p. fst p \<noteq> t) (timers s), cleared := cleared s @ [t]\<rparr>"

text \<open>\<open>if (this._tickTimer) { clearTimeout(this._tickTimer); }\<close>: the handle 0 is falsy.\<close>

definition clearTickTimer :: "countdown \<Rightarrow> countdown" where
  "clearTickTimer s =
     (case tickTimer s of
        None \<Rightarrow> s
      | Some t \<Rightarrow> if t \<noteq> 0 then clearTimeout t s else s)"

section \<open>The class \<open>CountdownElement\<close> of component.js\<close>

text \<open>
  The constructor sets two fields to \<open>null\<close>; \<open>_targetTimestamp\<close> is not assigned and
  reads as \<open>undefined\<close>.  No timer is pending and nothing has been rendered.
\<close>

definition constructor :: countdown where
  "constructor =
     \<lparr>countdownDescElement = None, tickTimer = None, targetTimestamp = JUndefined,
      timers = [], nextHandle = 1, cleared = [], children = [], rendered = []\<rparr>"

text \<open>
  \<open>nextTick\<close>: returns at once when no \<open>div\<close> is bound; otherwise writes the
  description and calls \<open>setTimeout\<close>, whose result is dropped.
\<close>

definition nextTick :: "host \<Rightarrow> int \<Rightarrow> countdown \<Rightarrow> countdown" where
  "nextTick h now s =
     (let start = now in
      case countdownDescElement s of
        None \<Rightarrow> s
      | Some el \<Rightarrow>
          let timeDiff = jsSub (toNumber h (targetTimestamp s)) (Num start);
              descStr = (if jsLeZero timeDiff then ''Already elapsed!''
                         else timeMsDiffToString timeDiff);
              s = s\<lparr>rendered := rendered s @ [(el, descStr)]\<rparr>;
              nextTime = (start + 1000) div 1000;
              diff = nextTime - start
          in snd (setTimeout diff s))"

text \<open>The setter \<open>set targetTimestamp(timestamp)\<close>.\<close>

definition set_targetTimestamp :: "host \<Rightarrow> jsval \<Rightarrow> int \<Rightarrow> countdown \<Rightarrow> countdown" where
  "set_targetTimestamp h timestamp now s =
     (let timestamp =
            (if \<not> truthy timestamp then JNumber (Num 0)
             else case timestamp of
                    JString str \<Rightarrow> JNumber (dateParse h str)
                  | _ \<Rightarrow> timestamp);
          s = s\<lparr>targetTimestamp := timestamp\<rparr>;
          s = clearTickTimer s
      in nextTick h now s)"

definition attributeChangedCallback ::
    "host \<Rightarrow> string \<Rightarrow> jsval \<Rightarrow> jsval \<Rightarrow> int \<Rightarrow> countdown \<Rightarrow> countdown" where
  "attributeChangedCallback h name oldValue newValue now s =
     (if name = ''target-timestamp'' then set_targetTimestamp h newValue now s else s)"

text \<open>
  \<open>connectedCallback\<close>: a new \<open>div\<close> is created, appended and bound, then the setter
  runs on the value the getter returns.
\<close>

definition connectedCallback :: "host \<Rightarrow> int \<Rightarrow> countdown \<Rightarrow> countdown" where
  "connectedCallback h now s =
     (let textDiv = length (children s);
          s = s\<lparr>children := children s @ [textDiv]\<rparr>;
          s = s\<lparr>countdownDescElement := Some textDiv\<rparr>
      in set_targetTimestamp h (targetTimestamp s) now s)"

definition disconnectedCallback :: "countdown \<Rightarrow> countdown" where
  "disconnectedCallback s =
     (let s = clearTickTimer s
      in s\<lparr>targetTimestamp := JNull, countdownDescElement := None, tickTimer := None\<rparr>)"

text \<open>
  What can happen to an element after its construction: the browser calls a lifecycle
  hook, a script assigns the property or calls \<open>nextTick\<close>, or a pending timer fires.
  A timer fires once: it leaves \<open>timers\<close> and its callback calls \<open>nextTick\<close>; a handle
  that is not pending fires nothing.
\<close>

datatype event =
    Connected int
  | Disconnected
  | AttributeChanged string jsval jsval int
  | SetTarget jsval int
  | CallNextTick int
  | TimerFires nat int

fun step :: "host \<Rightarrow> countdown \<Rightarrow> event \<Rightarrow> countdown" where
  "step h s (Connected now) = connectedCallback h now s"
| "step h s Disconnected = disconnectedCallback s"
| "step h s (AttributeChanged name oldValue newValue now) =
     attributeChangedCallback h name oldValue newValue now s"
| "step h s (SetTarget v now) = set_targetTimestamp h v now s"
| "step h s (CallNextTick now) = nextTick h now s"
| "step h s (TimerFires t now) =
     (if t \<in> fst ` set (timers s)
      then nextTick h now (s\<lparr>timers := filter (\<lambda>p. fst p \<noteq> t) (timers s)\<rparr>)
      else s)"

definition run :: "host \<Rightarrow> event list \<Rightarrow> countdown \<Rightarrow> countdown" where
  "run h evs s = foldl (step h) s evs"

text \<open>The events that attach the element to a document again.\<close>

fun connects :: "event \<Rightarrow> bool" where
  "connects (Connected now) = True"
| "connects _ = False"

section \<open>The copy of the setter in README.md\<close>

text \<open>
  README.md prints the class again; its setter tests \<open>timestamp === null\<close> where
  component.js tests \<open>!timestamp\<close>, and is the same otherwise.
\<close>

definition README_set_targetTimestamp ::
    "host \<Rightarrow> jsval \<Rightarrow> int \<Rightarrow> countdown \<Rightarrow> countdown" where
  "README_set_targetTimestamp h timestamp now s =
     (let timestamp =
            (if timestamp = JNull then JNumber (Num 0)
             else case timestamp of
                    JString str \<Rightarrow> JNumber (dateParse h str)
                  | _ \<Rightarrow> timestamp);
          s = s\<lparr>targetTimestamp := timestamp\<rparr>;
          s = clearTickTimer s
      in nextTick h now s)"

section \<open>The formatter as the specification words it\<close>

text \<open>
  The specification describes the decomposition as successive integer division by six
  fixed divisors, given as 365 x 24 x 3600 x 1000 ms for a year, 28 x 24 x 3600 x 1000 ms
  for a month, then a day, an hour, a minute and a second; what a unit consumed is
  subtracted before the next unit is computed.
\<close>

definition spec_unitDivisors :: "int list" where
  "spec_unitDivisors =
     [365 * 24 * 3600 * 1000, 28 * 24 * 3600 * 1000, 24 * 3600 * 1000,
      3600 * 1000, 60 * 1000, 1000]"

fun spec_successiveDivision :: "int \<Rightarrow> int list \<Rightarrow> int list" where
  "spec_successiveDivision r [] = []"
| "spec_successiveDivision r (d # ds) = (r div d) # spec_successiveDivision (r - (r div d) * d) ds"

text \<open>
  The formatting policy of the specification: a unit contributes the segment
  \<open>value unitname\<close>, with a plural \<open>s\<close> unless the value is 1, when its value is
  greater than zero or the unit shows zero; only the seconds do.  The segments are
  joined by the separator, which is the concatenation with the separator after every
  segment and the last separator stripped.
\<close>

definition spec_unitNames :: "(string \<times> bool) list" where
  "spec_unitNames =
     [(''year'', False), (''month'', False), (''day'', False),
      (''hour'', False), (''minute'', False), (''second'', True)]"

definition spec_unitSegment :: "int \<Rightarrow> string \<Rightarrow> string" where
  "spec_unitSegment v name = toString (Num v) @ '' '' @ name @ (if v = 1 then '''' else ''s'')"

definition spec_segments :: "(int \<times> string \<times> bool) list \<Rightarrow> string list" where
  "spec_segments us =
     map (\<lambda>(v, name, showZero). spec_unitSegment v name)
       (filter (\<lambda>(v, name, showZero). 0 < v \<or> showZero) us)"

fun spec_joinWith :: "string \<Rightarrow> string list \<Rightarrow> string" where
  "spec_joinWith sep [] = []"
| "spec_joinWith sep [x] = x"
| "spec_joinWith sep (x # y # zs) = x @ sep @ spec_joinWith sep (y # zs)"

text \<open>
  The delay the specification asks \<open>tick\<close> to schedule: the milliseconds from \<open>now\<close> to
  the next whole second, \<open>floor((now + 1000) / 1000) * 1000 - now\<close>.
\<close>

definition spec_delayToNextSecond :: "int \<Rightarrow> int" where
  "spec_delayToNextSecond now = (now + 1000) div 1000 * 1000 - now"

section \<open>A host to run the model on\<close>

text \<open>
  The theorems hold for every host.  To run the model on concrete inputs, this host
  reads one date string, ten seconds after the epoch, and answers \<open>NaN\<close>, an invalid
  date, to every other string, as browsers do for the empty string.
\<close>

definition testHost :: host where
  "testHost =
     \<lparr>dateParse = (\<lambda>s. if s = ''1970-01-01T00:00:10.000Z'' then Num 10000 else NaN),
      stringToNumber = (\<lambda>s. NaN)\<rparr>"

section \<open>Properties of the formatter\<close>

lemma unitDivisors_source:
  "spec_unitDivisors =
     [1000 * 60 * 60 * 24 * 365, 1000 * 60 * 60 * 24 * 28, 1000 * 60 * 60 * 24,
      1000 * 60 * 60, 1000 * 60, 1000]"
  by (simp add: spec_unitDivisors_def)

lemma timeBreakdown_Num:
  "timeBreakdown (Num ms) =
     (case spec_successiveDivision ms spec_unitDivisors of
        [y, mo, d, h, mi, s] \<Rightarrow> (Num y, Num mo, Num d, Num h, Num mi, Num s)
      | _ \<Rightarrow> (NaN, NaN, NaN, NaN, NaN, NaN))"
  unfolding timeBreakdown_def Let_def unitDivisors_source
  by (simp only: floorDiv.simps jsSub.simps jsMul.simps list.case spec_successiveDivision.simps)

lemma successiveDivision_nonneg:
  "0 \<le> r \<Longrightarrow> list_all (\<lambda>d. 0 < d) ds \<Longrightarrow>
   list_all (\<lambda>v. 0 \<le> v) (spec_successiveDivision r ds)"
proof (induction ds arbitrary: r)
  case Nil
  then show ?case by simp
next
  case (Cons d ds)
  from Cons.prems have d: "0 < d" and ds: "list_all (\<lambda>d. 0 < d) ds" by simp_all
  have "r - r div d * d = r mod d" by (simp add: minus_div_mult_eq_mod)
  with d have "0 \<le> r - r div d * d" by simp
  from Cons.IH [OF this ds] Cons.prems(1) d show ?case
    by (simp add: pos_imp_zdiv_nonneg_iff)
qed

text \<open>
  C6.  For a duration \<open>ms\<close> that is not negative and is below \<open>2^53\<close>, the range in
  which the integer arithmetic of the model is the arithmetic of the code, the six
  components that \<open>timeMsDiffToString\<close> computes are the quotients of successive integer
  division by the fixed divisors of a 365-day year, a 28-day month, a day, an hour, a
  minute and a second, each taken after the amount of the units before it has been
  subtracted; no component is negative, and the divisors strictly descend.  The duration
  of one year, two days and three seconds in these units is formatted as
  \<open>1 year, 2 days, 3 seconds\<close>.
\<close>

theorem timeMsDiffToString_successive_division:
  assumes "0 \<le> ms" and "ms < 2 ^ 53"
  shows "(case timeBreakdown (Num ms) of (y, mo, d, h, mi, s) \<Rightarrow> [y, mo, d, h, mi, s]) =
           map Num (spec_successiveDivision ms spec_unitDivisors)
         \<and> list_all (\<lambda>v. 0 \<le> v) (spec_successiveDivision ms spec_unitDivisors)
         \<and> sorted_wrt (\<lambda>a b. b < a) spec_unitDivisors
         \<and> timeMsDiffToString
             (Num (1 * (365 * 24 * 3600 * 1000) + 2 * (24 * 3600 * 1000) + 3 * 1000)) =
           ''1 year, 2 days, 3 seconds''"
proof -
  have quotients:
    "(case timeBreakdown (Num ms) of (y, mo, d, h, mi, s) \<Rightarrow> [y, mo, d, h, mi, s]) =
       map Num (spec_successiveDivision ms spec_unitDivisors)"
    unfolding timeBreakdown_Num unitDivisors_source
    by (simp only: spec_successiveDivision.simps list.case prod.case list.map)
  have "list_all (\<lambda>d. 0 < d) spec_unitDivisors"
    by (simp add: spec_unitDivisors_def)
  with assms(1)
  have nonneg: "list_all (\<lambda>v. 0 \<le> v) (spec_successiveDivision ms spec_unitDivisors)"
    by (rule successiveDivision_nonneg)
  have descending: "sorted_wrt (\<lambda>a b. b < a) spec_unitDivisors"
    by (simp add: spec_unitDivisors_def)
  have example:
    "timeMsDiffToString
       (Num (1 * (365 * 24 * 3600 * 1000) + 2 * (24 * 3600 * 1000) + 3 * 1000)) =
     ''1 year, 2 days, 3 seconds''"
    by code_simp
  from quotients nonneg descending example show ?thesis by (intro conjI)
qed

theorem timeMsDiffToString_successive_division_witness:
  "(0::int) \<le> 31708803000
   \<and> (31708803000::int) < 2 ^ 53
   \<and> (case timeBreakdown (Num 31708803000) of (y, mo, d, h, mi, s) \<Rightarrow> [y, mo, d, h, mi, s]) =
       [Num 1, Num 0, Num 2, Num 0, Num 0, Num 3]"
proof -
  have h: "(0::int) \<le> 31708803000" by simp
  have b: "(31708803000::int) < 2 ^ 53" by simp
  have "spec_successiveDivision 31708803000 spec_unitDivisors = [1, 0, 2, 0, 0, 3]"
    by (simp add: spec_unitDivisors_def)
  with timeMsDiffToString_successive_division [OF h b] h b show ?thesis by simp
qed

lemma formatTime_Num:
  "formatTime (Num v) name z = (if 0 < v \<or> z then spec_unitSegment v name @ '', '' else [])"
  by (simp add: formatTime_def spec_unitSegment_def)

lemma concat_formatTime:
  "concat (map (\<lambda>(v, name, z). formatTime (Num v) name z) us) =
   concat (map (\<lambda>x. x @ '', '') (spec_segments us))"
  by (induction us) (simp_all add: spec_segments_def formatTime_Num split_beta)

lemma concat_joinWith:
  "xs \<noteq> [] \<Longrightarrow> concat (map (\<lambda>x. x @ sep) xs) = spec_joinWith sep xs @ sep"
  by (induction sep xs rule: spec_joinWith.induct) simp_all

lemma strip_last_separator:
  assumes "xs \<noteq> []"
  shows "substring0 (concat (map (\<lambda>x. x @ sep) xs))
     (int (length (concat (map (\<lambda>x. x @ sep) xs))) - int (length sep)) = spec_joinWith sep xs"
proof -
  have "concat (map (\<lambda>x. x @ sep) xs) = spec_joinWith sep xs @ sep"
    using assms by (rule concat_joinWith)
  then show ?thesis by (simp add: substring0_def)
qed

lemma segments_last:
  "spec_segments (us @ [(v, name, True)]) \<noteq> []"
  by (simp add: spec_segments_def)

lemma timeMsDiffToString_joinWith:
  assumes "timeBreakdown (Num ms) = (Num y, Num mo, Num d, Num h, Num mi, Num s)"
  shows "timeMsDiffToString (Num ms) =
       spec_joinWith '', ''
         (spec_segments [(y, ''year'', False), (mo, ''month'', False), (d, ''day'', False),
                    (h, ''hour'', False), (mi, ''minute'', False), (s, ''second'', True)])"
proof -
  let ?us = "[(y, ''year'', False), (mo, ''month'', False), (d, ''day'', False),
              (h, ''hour'', False), (mi, ''minute'', False), (s, ''second'', True)]"
  let ?time = "concat (map (\<lambda>x. x @ '', '') (spec_segments ?us))"
  have ne: "spec_segments ?us \<noteq> []"
    using segments_last [of "[(y, ''year'', False), (mo, ''month'', False), (d, ''day'', False),
              (h, ''hour'', False), (mi, ''minute'', False)]" s "''second''"] by simp
  have eq: "formatTime (Num y) ''year'' False @ formatTime (Num mo) ''month'' False @
        formatTime (Num d) ''day'' False @ formatTime (Num h) ''hour'' False @
        formatTime (Num mi) ''minute'' False @ formatTime (Num s) ''second'' True = ?time"
    using concat_formatTime [of ?us] by simp
  have "timeMsDiffToString (Num ms) = substring0 ?time (int (length ?time) - 2)"
    unfolding timeMsDiffToString_def assms prod.case Let_def eq by (rule refl)
  also have "\<dots> = spec_joinWith '', '' (spec_segments ?us)"
    using strip_last_separator [OF ne, of "'', ''"] by simp
  finally show ?thesis .
qed

text \<open>
  C7.  For a duration \<open>ms\<close> that is not negative and is below \<open>2^53\<close>, the range in
  which the integer arithmetic and the decimal digits of the model are those of the
  code, the output of \<open>timeMsDiffToString\<close> is the list of the segments of the six units
  in unit order, joined by a comma and a space with no separator after the last one.  A
  unit has a segment when its value is greater than zero, and the seconds always have
  one; the segment is the value, a space and the name of the unit, with an \<open>s\<close> unless
  the value is 1.  Zero milliseconds give \<open>0 seconds\<close> and 1000 milliseconds give
  \<open>1 second\<close>.
\<close>

theorem timeMsDiffToString_segments:
  assumes "0 \<le> ms" and "ms < 2 ^ 53"
  shows "timeMsDiffToString (Num ms) =
           spec_joinWith '', ''
             (spec_segments (zip (spec_successiveDivision ms spec_unitDivisors) spec_unitNames))
         \<and> timeMsDiffToString (Num 0) = ''0 seconds''
         \<and> timeMsDiffToString (Num 1000) = ''1 second''"
proof -
  obtain y mo d h mi s
    where sd: "spec_successiveDivision ms spec_unitDivisors = [y, mo, d, h, mi, s]"
    unfolding unitDivisors_source by (simp only: spec_successiveDivision.simps)
  then have "timeBreakdown (Num ms) = (Num y, Num mo, Num d, Num h, Num mi, Num s)"
    by (simp only: timeBreakdown_Num list.case)
  from timeMsDiffToString_joinWith [OF this]
  have "timeMsDiffToString (Num ms) =
     spec_joinWith '', ''
       (spec_segments (zip (spec_successiveDivision ms spec_unitDivisors) spec_unitNames))"
    by (simp only: sd spec_unitNames_def zip_Cons_Cons zip_Nil)
  moreover have "timeMsDiffToString (Num 0) = ''0 seconds''" by code_simp
  moreover have "timeMsDiffToString (Num 1000) = ''1 second''" by code_simp
  ultimately show ?thesis by (intro conjI)
qed

theorem timeMsDiffToString_segments_witness:
  "(0::int) \<le> 61000
   \<and> (61000::int) < 2 ^ 53
   \<and> spec_segments (zip (spec_successiveDivision 61000 spec_unitDivisors) spec_unitNames) =
       [''1 minute'', ''1 second'']
   \<and> timeMsDiffToString (Num 61000) = ''1 minute, 1 second''"
proof -
  have h: "(0::int) \<le> 61000" by simp
  have b: "(61000::int) < 2 ^ 53" by simp
  have segs:
    "spec_segments (zip (spec_successiveDivision 61000 spec_unitDivisors) spec_unitNames) =
       [''1 minute'', ''1 second'']"
    by code_simp
  from timeMsDiffToString_segments [OF h b] segs h b show ?thesis by simp
qed

text \<open>
  C10.  The months of \<open>timeMsDiffToString\<close> are not bounded by 12: 31,449,600,000 ms,
  which is 364 days or thirteen months of 28 days, is less than the year of 365 days and
  not negative, its months component is 13, and it is formatted as
  \<open>13 months, 0 seconds\<close>.
\<close>

theorem timeMsDiffToString_thirteen_months:
  "(0::int) \<le> 31449600000
   \<and> (31449600000::int) = 13 * (1000 * 60 * 60 * 24 * 28)
   \<and> (31449600000::int) < 1000 * 60 * 60 * 24 * 365
   \<and> timeBreakdown (Num 31449600000) = (Num 0, Num 13, Num 0, Num 0, Num 0, Num 0)
   \<and> timeMsDiffToString (Num 31449600000) = ''13 months, 0 seconds''"
proof -
  have "timeBreakdown (Num 31449600000) = (Num 0, Num 13, Num 0, Num 0, Num 0, Num 0)"
    by code_simp
  moreover have "timeMsDiffToString (Num 31449600000) = ''13 months, 0 seconds''"
    by code_simp
  ultimately show ?thesis by simp
qed

section \<open>Properties of the element\<close>

subsection \<open>What \<open>nextTick\<close> and the setter do to each field\<close>

lemma nextTick_unbound:
  "countdownDescElement s = None \<Longrightarrow> nextTick h now s = s"
  by (simp add: nextTick_def)

lemma nextTick_bound:
  "countdownDescElement s = Some el \<Longrightarrow>
   nextTick h now s =
     s\<lparr>rendered := rendered s @
          [(el, if jsLeZero (jsSub (toNumber h (targetTimestamp s)) (Num now))
                then ''Already elapsed!''
                else timeMsDiffToString (jsSub (toNumber h (targetTimestamp s)) (Num now)))],
       timers := timers s @ [(nextHandle s, (now + 1000) div 1000 - now)],
       nextHandle := Suc (nextHandle s)\<rparr>"
  by (simp add: nextTick_def setTimeout_def Let_def)

lemma nextTick_fields:
  "tickTimer (nextTick h now s) = tickTimer s"
  "cleared (nextTick h now s) = cleared s"
  "countdownDescElement (nextTick h now s) = countdownDescElement s"
  "targetTimestamp (nextTick h now s) = targetTimestamp s"
  "children (nextTick h now s) = children s"
  by (cases "countdownDescElement s"; simp add: nextTick_unbound nextTick_bound)+

lemma nextTick_other_div:
  "countdownDescElement s \<noteq> Some el \<Longrightarrow>
   filter (\<lambda>p. fst p = el) (rendered (nextTick h now s)) = filter (\<lambda>p. fst p = el) (rendered s)"
  by (cases "countdownDescElement s") (auto simp: nextTick_unbound nextTick_bound)

lemma clearTickTimer_null:
  "tickTimer s = None \<Longrightarrow> clearTickTimer s = s"
  by (simp add: clearTickTimer_def)

lemma clearTickTimer_fields:
  "countdownDescElement (clearTickTimer s) = countdownDescElement s"
  "rendered (clearTickTimer s) = rendered s"
  "targetTimestamp (clearTickTimer s) = targetTimestamp s"
  "tickTimer (clearTickTimer s) = tickTimer s"
  "children (clearTickTimer s) = children s"
  by (simp_all add: clearTickTimer_def clearTimeout_def split: option.splits)

lemma set_targetTimestamp_target:
  "targetTimestamp (set_targetTimestamp h v now s) =
     (if \<not> truthy v then JNumber (Num 0)
      else case v of JString str \<Rightarrow> JNumber (dateParse h str) | _ \<Rightarrow> v)"
  by (simp add: set_targetTimestamp_def Let_def nextTick_fields clearTickTimer_fields)

lemma README_set_targetTimestamp_target:
  "targetTimestamp (README_set_targetTimestamp h v now s) =
     (if v = JNull then JNumber (Num 0)
      else case v of JString str \<Rightarrow> JNumber (dateParse h str) | _ \<Rightarrow> v)"
  by (simp add: README_set_targetTimestamp_def Let_def nextTick_fields clearTickTimer_fields)

lemma set_targetTimestamp_tickTimer:
  "tickTimer s = None \<Longrightarrow> tickTimer (set_targetTimestamp h v now s) = None"
  "tickTimer s = None \<Longrightarrow> cleared (set_targetTimestamp h v now s) = cleared s"
  by (simp_all add: set_targetTimestamp_def Let_def nextTick_fields clearTickTimer_null)

lemma set_targetTimestamp_unbound:
  "countdownDescElement s = None \<Longrightarrow> countdownDescElement (set_targetTimestamp h v now s) = None"
  "countdownDescElement s = None \<Longrightarrow> rendered (set_targetTimestamp h v now s) = rendered s"
  by (simp_all add: set_targetTimestamp_def Let_def nextTick_fields clearTickTimer_fields
      nextTick_unbound)

lemma set_targetTimestamp_other_div:
  assumes "countdownDescElement s \<noteq> Some el"
  shows "countdownDescElement (set_targetTimestamp h v now s) \<noteq> Some el"
    and "children (set_targetTimestamp h v now s) = children s"
    and "filter (\<lambda>p. fst p = el) (rendered (set_targetTimestamp h v now s)) =
         filter (\<lambda>p. fst p = el) (rendered s)"
  using assms
  by (simp_all add: set_targetTimestamp_def Let_def nextTick_fields nextTick_other_div
      clearTickTimer_fields)

lemma disconnectedCallback_fields:
  "countdownDescElement (disconnectedCallback s) = None"
  "rendered (disconnectedCallback s) = rendered s"
  "children (disconnectedCallback s) = children s"
  by (simp_all add: disconnectedCallback_def clearTickTimer_fields Let_def)

subsection \<open>What a tick renders\<close>



subsection \<open>The field \<open>_tickTimer\<close>\<close>

lemma step_tickTimer:
  assumes "tickTimer s = None"
  shows "tickTimer (step h s ev) = None \<and> cleared (step h s ev) = cleared s"
  using assms
  by (cases ev)
     (simp_all add: connectedCallback_def disconnectedCallback_def attributeChangedCallback_def
        set_targetTimestamp_tickTimer nextTick_fields clearTickTimer_null Let_def)

lemma run_tickTimer:
  "tickTimer s = None \<Longrightarrow>
   tickTimer (run h evs s) = None \<and> cleared (run h evs s) = cleared s"
proof (induction evs arbitrary: s)
  case Nil
  then show ?case by (simp add: run_def)
next
  case (Cons ev evs)
  from step_tickTimer [OF Cons.prems, of h ev]
  have a: "tickTimer (step h s ev) = None" and b: "cleared (step h s ev) = cleared s" by simp_all
  from Cons.IH [OF a] b show ?case by (simp add: run_def)
qed

text \<open>
  C3.  After the constructor, whatever the browser, scripts and timers do to the
  element, in any order, \<open>_tickTimer\<close> is \<open>null\<close>: no operation assigns it the handle
  that \<open>setTimeout\<close> returns.  So the guarded \<open>clearTimeout\<close> of the setter and of
  \<open>disconnectedCallback\<close> changes nothing in any state the element reaches, and
  \<open>clearTimeout\<close> is never called.
\<close>

theorem tickTimer_never_assigned:
  "tickTimer (run h evs constructor) = None
   \<and> cleared (run h evs constructor) = []
   \<and> clearTickTimer (run h evs constructor) = run h evs constructor"
proof -
  have "tickTimer constructor = None" by (simp add: constructor_def)
  from run_tickTimer [OF this, of h evs] show ?thesis
    by (simp add: clearTickTimer_null constructor_def)
qed

subsection \<open>After \<open>disconnectedCallback\<close>\<close>

lemma step_unbound:
  assumes "countdownDescElement s = None" and "\<not> connects ev"
  shows "countdownDescElement (step h s ev) = None \<and> rendered (step h s ev) = rendered s"
  using assms
  by (cases ev)
     (simp_all add: disconnectedCallback_def attributeChangedCallback_def
        set_targetTimestamp_unbound nextTick_unbound clearTickTimer_fields Let_def)

lemma run_unbound:
  "countdownDescElement s = None \<Longrightarrow> list_all (\<lambda>ev. \<not> connects ev) evs \<Longrightarrow>
   countdownDescElement (run h evs s) = None \<and> rendered (run h evs s) = rendered s"
proof (induction evs arbitrary: s)
  case Nil
  then show ?case by (simp add: run_def)
next
  case (Cons ev evs)
  from Cons.prems have ev: "\<not> connects ev" and evs: "list_all (\<lambda>ev. \<not> connects ev) evs"
    by simp_all
  from step_unbound [OF Cons.prems(1) ev, of h]
  have a: "countdownDescElement (step h s ev) = None" and b: "rendered (step h s ev) = rendered s"
    by simp_all
  from Cons.IH [OF a evs] b show ?case by (simp add: run_def)
qed

lemma step_other_div:
  assumes "countdownDescElement s \<noteq> Some el" and "el < length (children s)"
  shows "countdownDescElement (step h s ev) \<noteq> Some el
         \<and> el < length (children (step h s ev))
         \<and> filter (\<lambda>p. fst p = el) (rendered (step h s ev)) =
            filter (\<lambda>p. fst p = el) (rendered s)"
proof (cases ev)
  case (Connected now)
  let ?s = "s\<lparr>children := children s @ [length (children s)],
              countdownDescElement := Some (length (children s))\<rparr>"
  from assms(2) have "countdownDescElement ?s \<noteq> Some el" by simp
  from set_targetTimestamp_other_div [OF this, of h "targetTimestamp s" now] assms(2) Connected
  show ?thesis by (simp add: connectedCallback_def Let_def)
next
  case Disconnected
  with assms show ?thesis
    by (simp add: disconnectedCallback_fields)
next
  case (AttributeChanged name oldValue newValue now)
  with assms set_targetTimestamp_other_div [OF assms(1), of h newValue now] show ?thesis
    by (simp add: attributeChangedCallback_def)
next
  case (SetTarget v now)
  with assms set_targetTimestamp_other_div [OF assms(1), of h v now] show ?thesis by simp
next
  case (CallNextTick now)
  with assms show ?thesis by (simp add: nextTick_fields nextTick_other_div)
next
  case (TimerFires t now)
  with assms show ?thesis by (simp add: nextTick_fields nextTick_other_div)
qed

lemma run_other_div:
  "countdownDescElement s \<noteq> Some el \<Longrightarrow> el < length (children s) \<Longrightarrow>
   filter (\<lambda>p. fst p = el) (rendered (run h evs s)) = filter (\<lambda>p. fst p = el) (rendered s)"
proof (induction evs arbitrary: s)
  case Nil
  then show ?case by (simp add: run_def)
next
  case (Cons ev evs)
  from step_other_div [OF Cons.prems, of h ev]
  have a: "countdownDescElement (step h s ev) \<noteq> Some el"
    and b: "el < length (children (step h s ev))"
    and c: "filter (\<lambda>p. fst p = el) (rendered (step h s ev)) =
            filter (\<lambda>p. fst p = el) (rendered s)" by simp_all
  from Cons.IH [OF a b] c show ?case by (simp add: run_def)
qed

text \<open>
  C4.  After \<open>disconnectedCallback\<close>, for as long as the element is not connected to
  a document again, nothing is rendered, and in every state reached \<open>nextTick\<close> changes
  nothing: it renders nothing and schedules nothing.  The later events include the
  firing of a timer that was scheduled before the disconnection, the setter and direct
  calls of \<open>nextTick\<close>.  A \<open>div\<close> the element created before the disconnection is
  never written again, whatever happens later, a new connection included.
\<close>

theorem no_render_after_disconnect:
  "(list_all (\<lambda>ev. \<not> connects ev) evs \<longrightarrow>
      rendered (run h evs (disconnectedCallback s)) = rendered s
      \<and> nextTick h now (run h evs (disconnectedCallback s)) = run h evs (disconnectedCallback s))
   \<and> (el < length (children s) \<longrightarrow>
      filter (\<lambda>p. fst p = el) (rendered (run h evs (disconnectedCallback s))) =
      filter (\<lambda>p. fst p = el) (rendered s))"
proof (intro conjI impI)
  assume "list_all (\<lambda>ev. \<not> connects ev) evs"
  with disconnectedCallback_fields(1)
  have "countdownDescElement (run h evs (disconnectedCallback s)) = None
        \<and> rendered (run h evs (disconnectedCallback s)) = rendered (disconnectedCallback s)"
    by (rule run_unbound)
  then show "rendered (run h evs (disconnectedCallback s)) = rendered s"
    and "nextTick h now (run h evs (disconnectedCallback s)) = run h evs (disconnectedCallback s)"
    by (simp_all add: disconnectedCallback_fields nextTick_unbound)
next
  assume "el < length (children s)"
  then have "el < length (children (disconnectedCallback s))"
    by (simp add: disconnectedCallback_fields)
  moreover have "countdownDescElement (disconnectedCallback s) \<noteq> Some el"
    by (simp add: disconnectedCallback_fields)
  ultimately have
    "filter (\<lambda>p. fst p = el) (rendered (run h evs (disconnectedCallback s))) =
     filter (\<lambda>p. fst p = el) (rendered (disconnectedCallback s))"
    by (intro run_other_div)
  then show "filter (\<lambda>p. fst p = el) (rendered (run h evs (disconnectedCallback s))) =
      filter (\<lambda>p. fst p = el) (rendered s)"
    by (simp add: disconnectedCallback_fields)
qed

theorem no_render_after_disconnect_witness:
  "list_all (\<lambda>ev. \<not> connects ev)
       [TimerFires 1 2000, SetTarget (JNumber (Num 63000)) 2100, CallNextTick 2200]
   \<and> (0::nat) < length (children (connectedCallback testHost 1500 constructor))
   \<and> timers (disconnectedCallback (connectedCallback testHost 1500 constructor)) = [(1, - 1498)]
   \<and> rendered (connectedCallback testHost 1500 constructor) = [(0, ''Already elapsed!'')]
   \<and> rendered (run testHost
        [TimerFires 1 2000, SetTarget (JNumber (Num 63000)) 2100, CallNextTick 2200]
        (disconnectedCallback (connectedCallback testHost 1500 constructor))) =
       [(0, ''Already elapsed!'')]
   \<and> filter (\<lambda>p. fst p = 0) (rendered (run testHost
        [TimerFires 1 2000, Connected 2100, CallNextTick 2200]
        (disconnectedCallback (connectedCallback testHost 1500 constructor)))) =
       [(0, ''Already elapsed!'')]"
proof -
  let ?s = "connectedCallback testHost 1500 constructor"
  have a: "list_all (\<lambda>ev. \<not> connects ev)
     [TimerFires 1 2000, SetTarget (JNumber (Num 63000)) 2100, CallNextTick 2200]" by simp
  have k: "(0::nat) < length (children ?s)" by code_simp
  have b: "timers (disconnectedCallback ?s) = [(1, - 1498)]" by code_simp
  have c: "rendered ?s = [(0, ''Already elapsed!'')]" by code_simp
  from no_render_after_disconnect [where h = testHost and s = ?s and el = 0 and now = 0
      and evs = "[TimerFires 1 2000, SetTarget (JNumber (Num 63000)) 2100, CallNextTick 2200]"]
    no_render_after_disconnect [where h = testHost and s = ?s and el = 0 and now = 0
      and evs = "[TimerFires 1 2000, Connected 2100, CallNextTick 2200]"]
    a k b c
  show ?thesis by simp
qed

subsection \<open>What the setter stores\<close>

text \<open>
  C8, as amended.  The setter stores a normalized value: \<open>null\<close> and \<open>undefined\<close>
  become 0; a string that is not empty becomes the timestamp its date parses to, and the
  empty string becomes 0; a number is stored as it is, except that \<open>NaN\<close> becomes 0.
\<close>

theorem set_targetTimestamp_normalizes:
  "targetTimestamp (set_targetTimestamp h JNull now s) = JNumber (Num 0)
   \<and> targetTimestamp (set_targetTimestamp h JUndefined now s) = JNumber (Num 0)
   \<and> targetTimestamp (set_targetTimestamp h (JString (c # cs)) now s) =
       JNumber (dateParse h (c # cs))
   \<and> targetTimestamp (set_targetTimestamp h (JString []) now s) = JNumber (Num 0)
   \<and> targetTimestamp (set_targetTimestamp h (JNumber (Num n)) now s) = JNumber (Num n)
   \<and> targetTimestamp (set_targetTimestamp h (JNumber NaN) now s) = JNumber (Num 0)"
  by (simp add: set_targetTimestamp_target)

text \<open>
  C8 as it was stated fails on the empty string, which is a string and is not parsed as
  a date: on a host whose \<open>Date\<close> is invalid for the empty string the setter stores 0
  and not \<open>NaN\<close>.  It fails on the number \<open>NaN\<close> too, which is not stored as it is.
\<close>

theorem set_targetTimestamp_empty_string_counterexample:
  "targetTimestamp (set_targetTimestamp testHost (JString '''') 0 constructor) = JNumber (Num 0)
   \<and> dateParse testHost '''' = NaN
   \<and> targetTimestamp (set_targetTimestamp testHost (JString '''') 0 constructor) \<noteq>
       JNumber (dateParse testHost '''')
   \<and> targetTimestamp (set_targetTimestamp testHost (JNumber NaN) 0 constructor) \<noteq> JNumber NaN"
  by (simp add: set_targetTimestamp_target testHost_def)

text \<open>
  C9.  The setter of component.js and the setter printed in README.md are not the same
  function.  On the empty string the first stores 0 and the second stores what the
  date parser returns, which on a host where the empty string is an invalid date is
  \<open>NaN\<close>; on \<open>undefined\<close> they differ on every host.  On the number 0 both store 0:
  the first through the test \<open>!timestamp\<close>, the second by storing the number as it is.
\<close>

theorem setters_differ:
  "targetTimestamp (set_targetTimestamp h (JString '''') now s) = JNumber (Num 0)
   \<and> targetTimestamp (README_set_targetTimestamp h (JString '''') now s) =
       JNumber (dateParse h '''')
   \<and> targetTimestamp (set_targetTimestamp testHost (JString '''') now s) \<noteq>
       targetTimestamp (README_set_targetTimestamp testHost (JString '''') now s)
   \<and> targetTimestamp (set_targetTimestamp h JUndefined now s) \<noteq>
       targetTimestamp (README_set_targetTimestamp h JUndefined now s)
   \<and> targetTimestamp (set_targetTimestamp h (JNumber (Num 0)) now s) =
       targetTimestamp (README_set_targetTimestamp h (JNumber (Num 0)) now s)
   \<and> set_targetTimestamp h \<noteq> README_set_targetTimestamp h"
proof -
  have undef: "targetTimestamp (set_targetTimestamp h JUndefined now s) \<noteq>
       targetTimestamp (README_set_targetTimestamp h JUndefined now s)" for now s
    by (simp add: set_targetTimestamp_target README_set_targetTimestamp_target)
  have "set_targetTimestamp h \<noteq> README_set_targetTimestamp h"
  proof
    assume "set_targetTimestamp h = README_set_targetTimestamp h"
    then have "targetTimestamp (set_targetTimestamp h JUndefined 0 constructor) =
       targetTimestamp (README_set_targetTimestamp h JUndefined 0 constructor)" by simp
    with undef show False by blast
  qed
  with undef show ?thesis
    by (simp add: set_targetTimestamp_target README_set_targetTimestamp_target testHost_def)
qed

subsection \<open>The timers the element leaves pending\<close>

text \<open>
  C1 does not hold of the code.  The delay \<open>nextTick\<close> passes to \<open>setTimeout\<close> is
  \<open>floor((now + 1000) / 1000) - now\<close>: the count of seconds is not multiplied by 1000
  before the milliseconds are subtracted.  At the clock reading 1500 the element
  schedules the delay -1498, where the next whole second is 500 ms away.
\<close>

theorem nextTick_delay_not_to_next_second:
  "timers (nextTick h now (s\<lparr>countdownDescElement := Some el\<rparr>)) =
     timers s @ [(nextHandle s, (now + 1000) div 1000 - now)]
   \<and> timers (nextTick testHost 1500 (connectedCallback testHost 1000 constructor)) =
       [(1, - 998), (2, - 1498)]
   \<and> spec_delayToNextSecond 1500 = 500"
proof -
  have "timers (nextTick testHost 1500 (connectedCallback testHost 1000 constructor)) =
       [(1, - 998), (2, - 1498)]" by code_simp
  then show ?thesis by (simp add: nextTick_bound spec_delayToNextSecond_def)
qed

text \<open>
  C2 does not hold of the code.  With a \<open>div\<close> bound and \<open>_tickTimer\<close> \<open>null\<close>, as it
  always is, two assignments of the property in a row leave two more timers pending and
  cancel none.  After the connection and two assignments three timers are pending and
  \<open>clearTimeout\<close> has not been called.
\<close>

theorem set_targetTimestamp_twice_leaks_timers:
  "timers (set_targetTimestamp h x now2 (set_targetTimestamp h x now1
       (s\<lparr>countdownDescElement := Some el, tickTimer := None\<rparr>))) =
     timers s @ [(nextHandle s, (now1 + 1000) div 1000 - now1),
                 (Suc (nextHandle s), (now2 + 1000) div 1000 - now2)]
   \<and> timers (run testHost [Connected 1500, SetTarget (JNumber (Num 63000)) 1600,
        SetTarget (JNumber (Num 63000)) 1600] constructor) =
       [(1, - 1498), (2, - 1598), (3, - 1598)]
   \<and> cleared (run testHost [Connected 1500, SetTarget (JNumber (Num 63000)) 1600,
        SetTarget (JNumber (Num 63000)) 1600] constructor) = []"
proof -
  have "timers (run testHost [Connected 1500, SetTarget (JNumber (Num 63000)) 1600,
        SetTarget (JNumber (Num 63000)) 1600] constructor) =
       [(1, - 1498), (2, - 1598), (3, - 1598)]" by code_simp
  moreover have "cleared (run testHost [Connected 1500, SetTarget (JNumber (Num 63000)) 1600,
        SetTarget (JNumber (Num 63000)) 1600] constructor) = []" by code_simp
  moreover have "timers (set_targetTimestamp h x now2 (set_targetTimestamp h x now1
       (s\<lparr>countdownDescElement := Some el, tickTimer := None\<rparr>))) =
     timers s @ [(nextHandle s, (now1 + 1000) div 1000 - now1),
                 (Suc (nextHandle s), (now2 + 1000) div 1000 - now2)]"
    by (simp add: set_targetTimestamp_def Let_def clearTickTimer_def nextTick_bound)
  ultimately show ?thesis by (intro conjI)
qed

end
